theory Spec2Isabelle
  imports Main "HOL-Library.Sublist"
begin

section \<open>Tables\<close>

text \<open>
  The risk engine of \<^verbatim>\<open>app.py\<close> (\<^verbatim>\<open>compute_risk\<close>, lines 59 to 117) works on a pandas
  DataFrame read from a CSV file. A table is modelled by its column labels and its rows.
  A text cell is \<open>Some s\<close>, a missing cell (NaN) is \<open>None\<close>. The column \<^verbatim>\<open>Time\<close> holds text
  before line 65 and points in time after it, so the row type is polymorphic in that cell.
  A point in time is a number of nanoseconds since the epoch and \<open>None\<close> is NaT.

  A row carries a cell for each of the five columns the engine reads; which of them the
  table really has is recorded in \<open>columns\<close>, and reading a column that is not there raises
  \<^verbatim>\<open>KeyError\<close>, as \<^verbatim>\<open>df["..."]\<close> does. A cell is a text or NaN, so a column with rows that
  are all missing is a column of floating-point numbers, and a column holding a text, or
  without rows, has dtype object, as \<^verbatim>\<open>read_csv\<close> and the DataFrame constructor build them.

  The exceptions that leave \<^verbatim>\<open>compute_risk\<close>: \<^verbatim>\<open>KeyError\<close> for an absent column label,
  \<^verbatim>\<open>AttributeError\<close> for the accessor \<^verbatim>\<open>.str\<close> on a column that is not of dtype object (lines
  69 and 103), \<^verbatim>\<open>TypeError\<close> for arithmetic or comparison between a timestamp with a UTC
  offset and one without (lines 76 and 80).
\<close>

datatype error = KeyError string | AttributeError | TypeError

record 't event =
  Time :: 't
  Event_name :: "string option"
  Description :: "string option"
  User_full_name :: "string option"
  IP_address :: "string option"

record 't risk_row = "'t event" +
  zero_resource :: bool
  lastmin_first :: bool
  grade_snoop :: nat
  status_checks :: nat
  no_draft :: bool
  minute5 :: "int option"
  hop_binge :: nat
  help_count :: bool
  ip_block :: "string option"
  geo_jumps :: nat
  risk_score :: int

record 'r frame =
  columns :: "string list"
  rows :: "'r list"

type_synonym entry = "(int option) event"

section \<open>The pandas operations the engine uses\<close>

text \<open>
  What a date text is read as: a point in time, in nanoseconds since the epoch, without a
  UTC offset (the text names none) or with one.
\<close>

datatype stamp = Naive int | Aware int

fun instant :: "stamp \<Rightarrow> int" where
  "instant (Naive t) = t"
| "instant (Aware t) = t"

text \<open>
  \<^verbatim>\<open>pd.to_datetime(..., errors="coerce")\<close>: a missing cell and a text that does not parse
  become NaT. \<open>parse\<close> is the reading that pandas applies to the cells of the column at hand,
  a parameter. The column that results is offset-aware when a cell is read with an offset.
\<close>

definition to_datetime :: "(string \<Rightarrow> stamp option) \<Rightarrow> string option \<Rightarrow> int option" where
  "to_datetime parse c = (case c of None \<Rightarrow> None | Some s \<Rightarrow> map_option instant (parse s))"

definition tz_aware :: "(string \<Rightarrow> stamp option) \<Rightarrow> string option list \<Rightarrow> bool" where
  "tz_aware parse cs =
     list_ex (\<lambda>c. case c of None \<Rightarrow> False
                  | Some s \<Rightarrow> (case parse s of Some (Aware t) \<Rightarrow> True | _ \<Rightarrow> False)) cs"

text \<open>
  The dtype of a column of texts and NaN: object when it has no rows or holds a text,
  \<^verbatim>\<open>float64\<close> otherwise. The accessor \<^verbatim>\<open>.str\<close> is there for dtype object only.
\<close>

definition object_dtype :: "string option list \<Rightarrow> bool" where
  "object_dtype cs = (cs = [] \<or> list_ex (\<lambda>c. c \<noteq> None) cs)"

text \<open>\<^verbatim>\<open>Series.eq\<close>, \<^verbatim>\<open>Series.ne\<close> against a text: a missing cell is equal to no text.\<close>

definition series_eq :: "string option \<Rightarrow> string \<Rightarrow> bool" where
  "series_eq c s = (c = Some s)"

definition series_ne :: "string option \<Rightarrow> string \<Rightarrow> bool" where
  "series_ne c s = (c \<noteq> Some s)"

text \<open>\<^verbatim>\<open>Series.ge\<close> against a point in time: NaT compares false.\<close>

definition series_ge :: "int option \<Rightarrow> int \<Rightarrow> bool" where
  "series_ge c x = (case c of None \<Rightarrow> False | Some t \<Rightarrow> x \<le> t)"

text \<open>\<^verbatim>\<open>Series.str.contains(pat, na=False)\<close> for a pattern without metacharacters.\<close>

definition str_contains :: "string option \<Rightarrow> string \<Rightarrow> bool" where
  "str_contains c pat = (case c of None \<Rightarrow> False | Some s \<Rightarrow> sublist pat s)"

text \<open>\<^verbatim>\<open>Series.isin\<close>: membership, a missing cell matching a missing value.\<close>

definition isin :: "'a \<Rightarrow> 'a list \<Rightarrow> bool" where
  "isin x xs = (x \<in> set xs)"

text \<open>\<^verbatim>\<open>Series.unique\<close>: the values in order of first appearance.\<close>

definition unique :: "'a list \<Rightarrow> 'a list" where
  "unique xs = rev (remdups (rev xs))"

fun dropna :: "'a option list \<Rightarrow> 'a list" where
  "dropna [] = []"
| "dropna (None # xs) = dropna xs"
| "dropna (Some x # xs) = x # dropna xs"

text \<open>
  \<^verbatim>\<open>groupby(key)\<close>: the rows of each group. Rows whose key is missing belong to no group,
  and a key without rows has no group.
\<close>

definition groupby :: "('r \<Rightarrow> 'k option) \<Rightarrow> 'r list \<Rightarrow> 'k option \<Rightarrow> 'r list option" where
  "groupby key df k =
     (let g = filter (\<lambda>r. key r = k) df
      in if k = None \<or> g = [] then None else Some g)"

fun series_min :: "int list \<Rightarrow> int option" where
  "series_min [] = None"
| "series_min (t # ts) = Some (fold min ts t)"

definition series_max :: "nat list \<Rightarrow> nat" where
  "series_max ns = fold max ns 0"

definition nunique :: "'a option list \<Rightarrow> nat" where
  "nunique cs = length (remdups (dropna cs))"

text \<open>\<^verbatim>\<open>df[key].map(series).fillna(0)\<close> for a series of counts.\<close>

definition map_fillna :: "('k \<Rightarrow> nat option) \<Rightarrow> 'k \<Rightarrow> nat" where
  "map_fillna s k = (case s k of None \<Rightarrow> 0 | Some n \<Rightarrow> n)"

text \<open>\<^verbatim>\<open>Series.get(key, default)\<close>.\<close>

definition series_get :: "('k \<Rightarrow> 'v option) \<Rightarrow> 'k \<Rightarrow> 'v \<Rightarrow> 'v" where
  "series_get s k d = (case s k of None \<Rightarrow> d | Some v \<Rightarrow> v)"

text \<open>\<^verbatim>\<open>df[label] = ...\<close> on the column labels: a new label is appended, an old one stays.\<close>

definition setitem :: "string list \<Rightarrow> string \<Rightarrow> string list" where
  "setitem cs c = (if c \<in> set cs then cs else cs @ [c])"

text \<open>Python's \<^verbatim>\<open>str\<close> of an integer.\<close>

definition digit_char :: "nat \<Rightarrow> char" where
  "digit_char d = ''0123456789'' ! d"

fun digits :: "nat \<Rightarrow> string" where
  "digits n = (if n < 10 then [digit_char n] else digits (n div 10) @ [digit_char (n mod 10)])"

declare digits.simps [simp del]

definition str :: "int \<Rightarrow> string" where
  "str i = (if i < 0 then CHR ''-'' # digits (nat (- i)) else digits (nat i))"

text \<open>
  \<^verbatim>\<open>Series.str.extract(r"(\d+\.\d+\.\d+)\.\d+", expand=False)\<close>: the first group of the leftmost
  match. Each of the first three \<^verbatim>\<open>\d+\<close> has to be followed by a dot, so it matches a whole run
  of digits; \<^verbatim>\<open>\d\<close> is taken on the ASCII digits.
\<close>

definition is_digit :: "char \<Rightarrow> bool" where
  "is_digit c = (c \<in> set ''0123456789'')"

definition octet_dot :: "string \<Rightarrow> (string \<times> string) option" where
  "octet_dot s =
     (let d = takeWhile is_digit s
      in if d = [] then None
         else (case dropWhile is_digit s of
                 [] \<Rightarrow> None
               | c # r \<Rightarrow> if c = CHR ''.'' then Some (d, r) else None))"

definition match_here :: "string \<Rightarrow> string option" where
  "match_here s =
     (case octet_dot s of None \<Rightarrow> None | Some (a, s1) \<Rightarrow>
      (case octet_dot s1 of None \<Rightarrow> None | Some (b, s2) \<Rightarrow>
       (case octet_dot s2 of None \<Rightarrow> None | Some (c, s3) \<Rightarrow>
        (case s3 of [] \<Rightarrow> None
         | x # _ \<Rightarrow> if is_digit x then Some (a @ ''.'' @ b @ ''.'' @ c) else None))))"

fun re_search :: "string \<Rightarrow> string option" where
  "re_search [] = None"
| "re_search (x # xs) =
     (case match_here (x # xs) of Some g \<Rightarrow> Some g | None \<Rightarrow> re_search xs)"

definition str_extract :: "string option \<Rightarrow> string option" where
  "str_extract c = (case c of None \<Rightarrow> None | Some s \<Rightarrow> re_search s)"

text \<open>\<^verbatim>\<open>Series.dt.floor("5min")\<close>, in nanoseconds.\<close>

definition hour :: int where
  "hour = 3600 * 1000000000"

definition floor_5min :: "int option \<Rightarrow> int option" where
  "floor_5min c = (case c of None \<Rightarrow> None | Some t \<Rightarrow> Some (t - t mod (300 * 1000000000)))"

section \<open>The seven signals\<close>

text \<open>
  Each definition below is one intermediate value of \<^verbatim>\<open>compute_risk\<close>, under the name the
  source gives it, as a function of the table after line 65 (\<open>df\<close>, with \<^verbatim>\<open>Time\<close> parsed).
\<close>

text \<open>Signal 1, lines 68 to 71.\<close>

definition opened :: "int \<Rightarrow> entry list \<Rightarrow> entry list" where
  "opened assign_cmid df =
     filter (\<lambda>r. series_eq (Event_name r) ''Course module viewed'' \<and>
                 str_contains (Description r) (str assign_cmid)) df"

definition has_opened :: "int \<Rightarrow> entry list \<Rightarrow> string option list" where
  "has_opened assign_cmid df = unique (map User_full_name (opened assign_cmid df))"

text \<open>
  Signal 2, lines 74 to 77. The difference to NaT is NaT, whose \<^verbatim>\<open>total_seconds()\<close> is nan,
  and \<^verbatim>\<open>nan <= 24\<close> is false. For a difference of whole nanoseconds, the comparison of the
  hours as floating-point numbers with 24 agrees with the comparison of the integers.
\<close>

definition first_access :: "entry list \<Rightarrow> string option \<Rightarrow> int option option" where
  "first_access df x =
     map_option (\<lambda>g. series_min (dropna (map Time g))) (groupby User_full_name df x)"

definition within_24h :: "int \<Rightarrow> int option \<Rightarrow> bool" where
  "within_24h deadline c = (case c of None \<Rightarrow> False | Some t \<Rightarrow> deadline - t \<le> 24 * hour)"

definition lastmin :: "int \<Rightarrow> entry list \<Rightarrow> string option \<Rightarrow> bool" where
  "lastmin deadline df x = within_24h deadline (series_get (first_access df) x (Some deadline))"

text \<open>Signal 3, lines 80 to 83.\<close>

definition recent :: "int \<Rightarrow> entry list \<Rightarrow> entry list" where
  "recent now df = filter (\<lambda>r. series_ge (Time r) (now - 48 * hour)) df"

definition snoop :: "int \<Rightarrow> entry list \<Rightarrow> entry list" where
  "snoop now df = filter (\<lambda>r. series_eq (Event_name r) ''Grade user report viewed'') (recent now df)"

definition snoop_cnt :: "int \<Rightarrow> entry list \<Rightarrow> string option \<Rightarrow> nat option" where
  "snoop_cnt now df x = map_option length (groupby User_full_name (snoop now df) x)"

text \<open>Signal 4, lines 86 to 89.\<close>

definition status :: "entry list \<Rightarrow> entry list" where
  "status df =
     filter (\<lambda>r. series_eq (Event_name r) ''The status of the submission has been viewed.'') df"

definition status_cnt :: "entry list \<Rightarrow> string option \<Rightarrow> nat option" where
  "status_cnt df x = map_option length (groupby User_full_name (status df) x)"

text \<open>
  Signal 5, lines 92 to 95. \<open>hop\<close> is the series of the sizes of the groups by user and
  five-minute window, as the list of its index entries with their values; a row whose user
  or whose window is missing is in no group.
\<close>

definition hop_key :: "entry \<Rightarrow> (string \<times> int) option" where
  "hop_key r =
     (case User_full_name r of None \<Rightarrow> None
      | Some u \<Rightarrow> (case floor_5min (Time r) of None \<Rightarrow> None | Some m \<Rightarrow> Some (u, m)))"

definition hop :: "entry list \<Rightarrow> ((string \<times> int) \<times> nat) list" where
  "hop df =
     (let ks = dropna (map hop_key (filter (\<lambda>r. series_eq (Event_name r) ''Course viewed'') df))
      in map (\<lambda>k. (k, count_list ks k)) (unique ks))"

definition binge :: "entry list \<Rightarrow> string option \<Rightarrow> nat option" where
  "binge df x =
     map_option (\<lambda>g. series_max (map snd g)) (groupby (\<lambda>e. Some (fst (fst e))) (hop df) x)"

text \<open>Signal 6, lines 98 to 100.\<close>

definition help_events :: "string list" where
  "help_events = [''Forum post created'', ''Message sent'', ''FAQ viewed'']"

definition helped :: "entry list \<Rightarrow> string option list" where
  "helped df =
     unique (map User_full_name
       (filter (\<lambda>r. case Event_name r of None \<Rightarrow> False | Some e \<Rightarrow> isin e help_events) df))"

text \<open>Signal 7, lines 103 to 105.\<close>

definition geo :: "entry list \<Rightarrow> string option \<Rightarrow> nat option" where
  "geo df x =
     map_option (\<lambda>g. nunique (map (\<lambda>r. str_extract (IP_address r)) g))
       (groupby User_full_name (filter (\<lambda>r. series_ne (IP_address r) '''') df) x)"

section \<open>The score and the engine\<close>

text \<open>
  Lines 108 to 116: the seven terms of the sum, in the order of the source, each the
  \<^verbatim>\<open>astype(int)\<close> of a truth value.
\<close>

definition indicators :: "('t, 'z) risk_row_scheme \<Rightarrow> int list" where
  "indicators r =
     [of_bool (zero_resource r),
      of_bool (lastmin_first r),
      of_bool (grade_snoop r \<ge> 3),
      of_bool (no_draft r \<and> status_checks r \<ge> 4),
      of_bool (hop_binge r \<ge> 5),
      of_bool (\<not> help_count r),
      of_bool (geo_jumps r \<ge> 2)]"

definition score :: "'t risk_row \<Rightarrow> 't risk_row" where
  "score r = r\<lparr>risk_score := sum_list (indicators r)\<rparr>"

text \<open>
  The columns a row gets, lines 71 to 105: every derived column is the user column mapped
  through a per-user value, or a function of the row's own cells.
\<close>

definition signals :: "int \<Rightarrow> int \<Rightarrow> int \<Rightarrow> entry list \<Rightarrow> entry \<Rightarrow> (int option) risk_row" where
  "signals assign_cmid deadline now df r =
     \<lparr>Time = Time r,
      Event_name = Event_name r,
      Description = Description r,
      User_full_name = User_full_name r,
      IP_address = IP_address r,
      zero_resource = (\<not> isin (User_full_name r) (has_opened assign_cmid df)),
      lastmin_first = lastmin deadline df (User_full_name r),
      grade_snoop = map_fillna (snoop_cnt now df) (User_full_name r),
      status_checks = map_fillna (status_cnt df) (User_full_name r),
      no_draft = True,
      minute5 = floor_5min (Time r),
      hop_binge = map_fillna (binge df) (User_full_name r),
      help_count = isin (User_full_name r) (helped df),
      ip_block = str_extract (IP_address r),
      geo_jumps = map_fillna (geo df) (User_full_name r),
      risk_score = 0\<rparr>"

text \<open>Line 65.\<close>

definition parse_time :: "(string \<Rightarrow> stamp option) \<Rightarrow> (string option) event \<Rightarrow> entry" where
  "parse_time parse r =
     \<lparr>Time = to_datetime parse (Time r),
      Event_name = Event_name r,
      Description = Description r,
      User_full_name = User_full_name r,
      IP_address = IP_address r\<rparr>"

text \<open>
  The columns the engine reads, in the order in which it first reads them (lines 65, 68,
  69, 70 and 103), and the columns it assigns, in the order of the assignments (lines 65 to
  108).
\<close>

definition required :: "string list" where
  "required = [''Time'', ''Event name'', ''Description'', ''User full name'', ''IP address'']"

definition derived :: "string list" where
  "derived =
     [''zero_resource'', ''lastmin_first'', ''grade_snoop'', ''status_checks'', ''no_draft'',
      ''minute5'', ''hop_binge'', ''help_count'', ''ip_block'', ''geo_jumps'', ''risk_score'']"

definition assigned :: "string list" where
  "assigned = ''Time'' # derived"

text \<open>
  The statement at which \<^verbatim>\<open>compute_risk\<close> raises, if any, in the order of the source. Line 65
  reads \<^verbatim>\<open>Time\<close>, line 68 \<^verbatim>\<open>Event name\<close>, line 69 \<^verbatim>\<open>Description\<close> and its accessor \<^verbatim>\<open>.str\<close>,
  line 70 \<^verbatim>\<open>User full name\<close>. With an offset-aware \<^verbatim>\<open>Time\<close> column, line 76 subtracts an
  offset-aware timestamp from the naive \<open>deadline\<close>, or else line 80 compares the column with
  the naive \<open>now\<close>: both raise \<^verbatim>\<open>TypeError\<close>. Line 103 reads \<^verbatim>\<open>IP address\<close> and its accessor
  \<^verbatim>\<open>.str\<close>. Nothing in \<^verbatim>\<open>compute_risk\<close> or in its caller at line 119 catches an exception.
\<close>

definition raised :: "(string \<Rightarrow> stamp option) \<Rightarrow> ((string option) event) frame \<Rightarrow> error option" where
  "raised parse log =
     (if ''Time'' \<notin> set (columns log) then Some (KeyError ''Time'')
      else if ''Event name'' \<notin> set (columns log) then Some (KeyError ''Event name'')
      else if ''Description'' \<notin> set (columns log) then Some (KeyError ''Description'')
      else if \<not> object_dtype (map Description (rows log)) then Some AttributeError
      else if ''User full name'' \<notin> set (columns log) then Some (KeyError ''User full name'')
      else if tz_aware parse (map Time (rows log)) then Some TypeError
      else if ''IP address'' \<notin> set (columns log) then Some (KeyError ''IP address'')
      else if \<not> object_dtype (map IP_address (rows log)) then Some AttributeError
      else None)"

text \<open>
  The body of \<^verbatim>\<open>compute_risk\<close> with its local constants and the clock as arguments:
  \<open>course_id\<close> and \<open>assign_cmid\<close> of line 62, \<open>deadline\<close> of line 63, \<open>now\<close> of line 64.
\<close>

definition risk_engine ::
  "(string \<Rightarrow> stamp option) \<Rightarrow> int \<Rightarrow> int \<Rightarrow> int \<Rightarrow> int \<Rightarrow> ((string option) event) frame
     \<Rightarrow> error + ((int option) risk_row) frame" where
  "risk_engine parse course_id assign_cmid deadline now log =
     (case raised parse log of
        Some e \<Rightarrow> Inl e
      | None \<Rightarrow>
          (let df = map (parse_time parse) (rows log)
           in Inr \<lparr>columns = foldl setitem (columns log) assigned,
                   rows = map (\<lambda>r. score (signals assign_cmid deadline now df r)) df\<rparr>))"

text \<open>\<^verbatim>\<open>pd.Timestamp("2025-12-17 23:59:59")\<close>, 1766015999 seconds after the epoch.\<close>

definition the_deadline :: int where
  "the_deadline = 1766015999 * 1000000000"

definition compute_risk ::
  "(string \<Rightarrow> stamp option) \<Rightarrow> int \<Rightarrow> ((string option) event) frame
     \<Rightarrow> error + ((int option) risk_row) frame" where
  "compute_risk parse now log = risk_engine parse 83 2889 the_deadline now log"

text \<open>
  Line 65 names no format. pandas (from version 2) then guesses the format from the first
  cell of the column that is not missing and reads every cell of the column with it, so that
  a text in another format becomes NaT under \<^verbatim>\<open>errors="coerce"\<close>; where it can guess no
  format, it reads cell by cell. Either way that first text decides how the cells are read:
  \<open>reading s\<close> is the reading that goes with the first text \<open>s\<close>, a parameter. The reading of a
  log is thus a function of its whole \<^verbatim>\<open>Time\<close> column.
\<close>

definition guess_format_for_array ::
  "(string \<Rightarrow> string \<Rightarrow> stamp option) \<Rightarrow> string option list \<Rightarrow> string \<Rightarrow> stamp option" where
  "guess_format_for_array reading cs =
     (case dropna cs of [] \<Rightarrow> (\<lambda>s. None) | s # ss \<Rightarrow> reading s)"

definition compute_risk_inferred ::
  "(string \<Rightarrow> string \<Rightarrow> stamp option) \<Rightarrow> int \<Rightarrow> ((string option) event) frame
     \<Rightarrow> error + ((int option) risk_row) frame" where
  "compute_risk_inferred reading now log =
     compute_risk (guess_format_for_array reading (map Time (rows log))) now log"

section \<open>Sample logs\<close>

text \<open>
  A small log for the examples below. \<open>sample_parse\<close> is the day-first reading of the date
  texts that occur in it, in nanoseconds since the epoch; every other text does not parse.
  \<open>sample_now\<close> is 2025-12-17 12:00:00.
\<close>

definition sample_parse :: "string \<Rightarrow> stamp option" where
  "sample_parse s =
     (if s = ''17/12/2025 10:00'' then Some (Naive (1765965600 * 1000000000))
      else if s = ''16/12/2025 09:00'' then Some (Naive (1765875600 * 1000000000))
      else if s = ''18/12/2025 08:00'' then Some (Naive (1766044800 * 1000000000))
      else None)"

definition sample_now :: int where
  "sample_now = 1765972800 * 1000000000"

definition sample_log :: "((string option) event) frame" where
  "sample_log =
     \<lparr>columns = [''Time'', ''User full name'', ''Event name'', ''Description'', ''IP address''],
      rows =
        [\<lparr>Time = Some ''17/12/2025 10:00'', Event_name = Some ''Grade user report viewed'',
          Description = None, User_full_name = Some ''alice'',
          IP_address = Some ''10.0.0.5''\<rparr>,
         \<lparr>Time = Some ''not a date'', Event_name = Some ''Course module viewed'',
          Description = Some ''viewed the module with id 2889'', User_full_name = Some ''bob'',
          IP_address = None\<rparr>]\<rparr>"

text \<open>A log whose only row is stamped after \<open>sample_now\<close>.\<close>

definition later_log :: "((string option) event) frame" where
  "later_log =
     \<lparr>columns = [''Time'', ''User full name'', ''Event name'', ''Description'', ''IP address''],
      rows =
        [\<lparr>Time = Some ''18/12/2025 08:00'', Event_name = Some ''Grade user report viewed'',
          Description = Some ''viewed the grade report'',
          User_full_name = Some ''alice'', IP_address = Some ''10.0.0.5''\<rparr>]\<rparr>"

text \<open>The tables the engine is expected to return for them at \<open>sample_now\<close>.\<close>

definition alice_row :: "(int option) risk_row" where
  "alice_row =
     \<lparr>Time = Some 1765965600000000000, Event_name = Some ''Grade user report viewed'',
      Description = None, User_full_name = Some ''alice'', IP_address = Some ''10.0.0.5'',
      zero_resource = True, lastmin_first = True, grade_snoop = 1, status_checks = 0,
      no_draft = True, minute5 = Some 1765965600000000000, hop_binge = 0,
      help_count = False, ip_block = Some ''10.0.0'', geo_jumps = 1, risk_score = 3\<rparr>"

definition bob_row :: "(int option) risk_row" where
  "bob_row =
     \<lparr>Time = None, Event_name = Some ''Course module viewed'',
      Description = Some ''viewed the module with id 2889'', User_full_name = Some ''bob'',
      IP_address = None,
      zero_resource = False, lastmin_first = False, grade_snoop = 0, status_checks = 0,
      no_draft = True, minute5 = None, hop_binge = 0,
      help_count = False, ip_block = None, geo_jumps = 0, risk_score = 1\<rparr>"

definition augmented_columns :: "string list" where
  "augmented_columns =
     [''Time'', ''User full name'', ''Event name'', ''Description'', ''IP address'',
      ''zero_resource'', ''lastmin_first'', ''grade_snoop'', ''status_checks'', ''no_draft'',
      ''minute5'', ''hop_binge'', ''help_count'', ''ip_block'', ''geo_jumps'', ''risk_score'']"

definition sample_out :: "((int option) risk_row) frame" where
  "sample_out = \<lparr>columns = augmented_columns, rows = [alice_row, bob_row]\<rparr>"

definition later_row :: "(int option) risk_row" where
  "later_row =
     \<lparr>Time = Some 1766044800000000000, Event_name = Some ''Grade user report viewed'',
      Description = Some ''viewed the grade report'',
      User_full_name = Some ''alice'', IP_address = Some ''10.0.0.5'',
      zero_resource = True, lastmin_first = True, grade_snoop = 1, status_checks = 0,
      no_draft = True, minute5 = Some 1766044800000000000, hop_binge = 0,
      help_count = False, ip_block = Some ''10.0.0'', geo_jumps = 1, risk_score = 3\<rparr>"

definition later_out :: "((int option) risk_row) frame" where
  "later_out = \<lparr>columns = augmented_columns, rows = [later_row]\<rparr>"

text \<open>
  A log of one user who viewed the course five times within five minutes from two networks,
  looked at the submission status four times and at the grade report three times, all at
  2025-12-17 10:00, and the table expected for it at \<open>sample_now\<close>.
\<close>

definition carol :: "string \<Rightarrow> string \<Rightarrow> (string option) event" where
  "carol ev ip =
     \<lparr>Time = Some ''17/12/2025 10:00'', Event_name = Some ev, Description = Some ''seen'',
      User_full_name = Some ''carol'', IP_address = Some ip\<rparr>"

definition busy_log :: "((string option) event) frame" where
  "busy_log =
     \<lparr>columns = [''Time'', ''User full name'', ''Event name'', ''Description'', ''IP address''],
      rows =
        replicate 4 (carol ''Course viewed'' ''10.0.0.5'')
        @ [carol ''Course viewed'' ''10.0.1.9'']
        @ replicate 4 (carol ''The status of the submission has been viewed.'' ''10.0.0.5'')
        @ replicate 3 (carol ''Grade user report viewed'' ''10.0.0.5'')\<rparr>"

definition carol_row :: "string \<Rightarrow> string \<Rightarrow> string \<Rightarrow> (int option) risk_row" where
  "carol_row ev ip block =
     \<lparr>Time = Some 1765965600000000000, Event_name = Some ev, Description = Some ''seen'',
      User_full_name = Some ''carol'', IP_address = Some ip,
      zero_resource = True, lastmin_first = True, grade_snoop = 3, status_checks = 4,
      no_draft = True, minute5 = Some 1765965600000000000, hop_binge = 5,
      help_count = False, ip_block = Some block, geo_jumps = 2, risk_score = 7\<rparr>"

definition busy_out :: "((int option) risk_row) frame" where
  "busy_out =
     \<lparr>columns = augmented_columns,
      rows =
        replicate 4 (carol_row ''Course viewed'' ''10.0.0.5'' ''10.0.0'')
        @ [carol_row ''Course viewed'' ''10.0.1.9'' ''10.0.1'']
        @ replicate 4
            (carol_row ''The status of the submission has been viewed.'' ''10.0.0.5'' ''10.0.0'')
        @ replicate 3 (carol_row ''Grade user report viewed'' ''10.0.0.5'' ''10.0.0'')\<rparr>"




section \<open>What the claims count\<close>

text \<open>
  The rows of a log in which a user viewed the grade report, stamped no earlier than 48
  hours before \<open>now\<close>; and, as the specification words it, those stamped within the 48 hours
  before \<open>now\<close>, that is no later than \<open>now\<close> either.
\<close>

definition grade_views_since ::
  "(string \<Rightarrow> stamp option) \<Rightarrow> int \<Rightarrow> (string option) event list \<Rightarrow> string \<Rightarrow> nat" where
  "grade_views_since parse now es u =
     length (filter (\<lambda>e. User_full_name e = Some u
                       \<and> Event_name e = Some ''Grade user report viewed''
                       \<and> (case to_datetime parse (Time e) of
                            None \<Rightarrow> False | Some t \<Rightarrow> now - 48 * hour \<le> t)) es)"

definition grade_views_within ::
  "(string \<Rightarrow> stamp option) \<Rightarrow> int \<Rightarrow> (string option) event list \<Rightarrow> string \<Rightarrow> nat" where
  "grade_views_within parse now es u =
     length (filter (\<lambda>e. User_full_name e = Some u
                       \<and> Event_name e = Some ''Grade user report viewed''
                       \<and> (case to_datetime parse (Time e) of
                            None \<Rightarrow> False | Some t \<Rightarrow> now - 48 * hour \<le> t \<and> t \<le> now)) es)"

text \<open>The timestamps of a user's rows that parse.\<close>

definition valid_times ::
  "(string \<Rightarrow> stamp option) \<Rightarrow> (string option) event list \<Rightarrow> string \<Rightarrow> int list" where
  "valid_times parse es u =
     dropna (map (\<lambda>e. to_datetime parse (Time e)) (filter (\<lambda>e. User_full_name e = Some u) es))"

text \<open>The rows of a table that belong to a user.\<close>

definition rows_of :: "string option \<Rightarrow> ('t, 'z) event_scheme list \<Rightarrow> ('t, 'z) event_scheme list" where
  "rows_of u es = filter (\<lambda>e. User_full_name e = u) es"

text \<open>The later log with one more row of the same user in front.\<close>

definition grown_log :: "((string option) event) frame" where
  "grown_log =
     \<lparr>columns = [''Time'', ''User full name'', ''Event name'', ''Description'', ''IP address''],
      rows =
        [\<lparr>Time = Some ''17/12/2025 10:00'', Event_name = Some ''Grade user report viewed'',
          Description = Some ''viewed the grade report'',
          User_full_name = Some ''alice'', IP_address = Some ''10.0.0.5''\<rparr>,
         \<lparr>Time = Some ''18/12/2025 08:00'', Event_name = Some ''Grade user report viewed'',
          Description = Some ''viewed the grade report'',
          User_full_name = Some ''alice'', IP_address = Some ''10.0.0.5''\<rparr>]\<rparr>"

definition grown_first :: "(int option) risk_row" where
  "grown_first =
     \<lparr>Time = Some 1765965600000000000, Event_name = Some ''Grade user report viewed'',
      Description = Some ''viewed the grade report'',
      User_full_name = Some ''alice'', IP_address = Some ''10.0.0.5'',
      zero_resource = True, lastmin_first = True, grade_snoop = 2, status_checks = 0,
      no_draft = True, minute5 = Some 1765965600000000000, hop_binge = 0,
      help_count = False, ip_block = Some ''10.0.0'', geo_jumps = 1, risk_score = 3\<rparr>"

definition grown_second :: "(int option) risk_row" where
  "grown_second =
     \<lparr>Time = Some 1766044800000000000, Event_name = Some ''Grade user report viewed'',
      Description = Some ''viewed the grade report'',
      User_full_name = Some ''alice'', IP_address = Some ''10.0.0.5'',
      zero_resource = True, lastmin_first = True, grade_snoop = 2, status_checks = 0,
      no_draft = True, minute5 = Some 1766044800000000000, hop_binge = 0,
      help_count = False, ip_block = Some ''10.0.0'', geo_jumps = 1, risk_score = 3\<rparr>"

definition grown_out :: "((int option) risk_row) frame" where
  "grown_out = \<lparr>columns = augmented_columns, rows = [grown_first, grown_second]\<rparr>"

text \<open>
  Date texts in two formats. \<open>iso_parse\<close> reads the year-first text that occurs below, and
  \<open>sample_reading\<close> picks the reading by the first text of the column: day first when it has
  a slash, year first otherwise.
\<close>

definition iso_parse :: "string \<Rightarrow> stamp option" where
  "iso_parse s =
     (if s = ''2025-12-17 11:00:00'' then Some (Naive (1765969200 * 1000000000)) else None)"

definition sample_reading :: "string \<Rightarrow> string \<Rightarrow> stamp option" where
  "sample_reading first = (if CHR ''/'' \<in> set first then sample_parse else iso_parse)"

text \<open>
  Three grade report views of one user at 2025-12-17 10:00, written day first; the same log
  with a fourth view of that user in front, written year first; and the same log with a row
  of another user in front, written year first. Below them the tables expected at
  \<open>sample_now\<close> when the format is guessed from the first text.
\<close>

definition view :: "string \<Rightarrow> string \<Rightarrow> string \<Rightarrow> (string option) event" where
  "view t ev u =
     \<lparr>Time = Some t, Event_name = Some ev, Description = Some ''seen'',
      User_full_name = Some u, IP_address = Some ''10.0.0.5''\<rparr>"

definition triple_log :: "((string option) event) frame" where
  "triple_log =
     \<lparr>columns = [''Time'', ''User full name'', ''Event name'', ''Description'', ''IP address''],
      rows = replicate 3 (view ''17/12/2025 10:00'' ''Grade user report viewed'' ''alice'')\<rparr>"

definition quad_log :: "((string option) event) frame" where
  "quad_log =
     \<lparr>columns = [''Time'', ''User full name'', ''Event name'', ''Description'', ''IP address''],
      rows = view ''2025-12-17 11:00:00'' ''Grade user report viewed'' ''alice''
             # replicate 3 (view ''17/12/2025 10:00'' ''Grade user report viewed'' ''alice'')\<rparr>"

definition mixed_log :: "((string option) event) frame" where
  "mixed_log =
     \<lparr>columns = [''Time'', ''User full name'', ''Event name'', ''Description'', ''IP address''],
      rows = view ''2025-12-17 11:00:00'' ''Course viewed'' ''bob''
             # replicate 3 (view ''17/12/2025 10:00'' ''Grade user report viewed'' ''alice'')\<rparr>"

definition viewed ::
  "int option \<Rightarrow> string \<Rightarrow> string \<Rightarrow> bool \<Rightarrow> nat \<Rightarrow> nat \<Rightarrow> int \<Rightarrow> (int option) risk_row" where
  "viewed t ev u late snoops hops sc =
     \<lparr>Time = t, Event_name = Some ev, Description = Some ''seen'',
      User_full_name = Some u, IP_address = Some ''10.0.0.5'',
      zero_resource = True, lastmin_first = late, grade_snoop = snoops, status_checks = 0,
      no_draft = True, minute5 = t, hop_binge = hops,
      help_count = False, ip_block = Some ''10.0.0'', geo_jumps = 1, risk_score = sc\<rparr>"

definition triple_row :: "(int option) risk_row" where
  "triple_row =
     viewed (Some 1765965600000000000) ''Grade user report viewed'' ''alice'' True 3 0 4"

definition triple_out :: "((int option) risk_row) frame" where
  "triple_out = \<lparr>columns = augmented_columns, rows = replicate 3 triple_row\<rparr>"

definition quad_first :: "(int option) risk_row" where
  "quad_first =
     viewed (Some 1765969200000000000) ''Grade user report viewed'' ''alice'' True 1 0 3"

definition quad_rest :: "(int option) risk_row" where
  "quad_rest = viewed None ''Grade user report viewed'' ''alice'' True 1 0 3"

definition quad_out :: "((int option) risk_row) frame" where
  "quad_out = \<lparr>columns = augmented_columns, rows = quad_first # replicate 3 quad_rest\<rparr>"

definition mixed_first :: "(int option) risk_row" where
  "mixed_first = viewed (Some 1765969200000000000) ''Course viewed'' ''bob'' True 0 1 3"

definition mixed_rest :: "(int option) risk_row" where
  "mixed_rest = viewed None ''Grade user report viewed'' ''alice'' False 0 0 2"

definition mixed_out :: "((int option) risk_row) frame" where
  "mixed_out = \<lparr>columns = augmented_columns, rows = mixed_first # replicate 3 mixed_rest\<rparr>"




section \<open>Running the engine\<close>

lemma find_required_None:
  "find (\<lambda>c. c \<notin> set cs) required = None \<longleftrightarrow> set required \<subseteq> set cs"
  by (auto simp: find_None_iff)

lemma raised_None:
  "raised parse log = None \<longleftrightarrow>
     set required \<subseteq> set (columns log)
     \<and> object_dtype (map Description (rows log)) \<and> \<not> tz_aware parse (map Time (rows log))
     \<and> object_dtype (map IP_address (rows log))"
  by (simp add: raised_def required_def)

lemma risk_engine_Inr:
  assumes "raised parse log = None"
  shows "risk_engine parse course_id assign_cmid deadline now log =
     Inr \<lparr>columns = foldl setitem (columns log) assigned,
          rows = map (\<lambda>r. score (signals assign_cmid deadline now
                                   (map (parse_time parse) (rows log)) r))
                   (map (parse_time parse) (rows log))\<rparr>"
  using assms by (simp add: risk_engine_def Let_def)

lemma risk_engine_Inl:
  assumes "raised parse log = Some e"
  shows "risk_engine parse course_id assign_cmid deadline now log = Inl e"
  using assms by (simp add: risk_engine_def)

lemma risk_engine_InrD:
  assumes "risk_engine parse course_id assign_cmid deadline now log = Inr out"
  shows "set required \<subseteq> set (columns log)"
    and "columns out = foldl setitem (columns log) assigned"
    and "rows out = map (\<lambda>r. score (signals assign_cmid deadline now
                                      (map (parse_time parse) (rows log)) r))
                      (map (parse_time parse) (rows log))"
proof -
  from assms have none: "raised parse log = None"
    by (cases "raised parse log") (simp_all add: risk_engine_def)
  then show "set required \<subseteq> set (columns log)"
    by (simp add: raised_None)
  from risk_engine_Inr [OF none] assms
  show "columns out = foldl setitem (columns log) assigned"
    and "rows out = map (\<lambda>r. score (signals assign_cmid deadline now
                                      (map (parse_time parse) (rows log)) r))
                      (map (parse_time parse) (rows log))"
    by auto
qed

lemma raised_empty:
  "set required \<subseteq> set cs \<Longrightarrow> raised parse \<lparr>columns = cs, rows = []\<rparr> = None"
  by (simp add: raised_None object_dtype_def tz_aware_def)

lemma sample_run: "compute_risk sample_parse sample_now sample_log = Inr sample_out"
  by code_simp

lemma later_run: "compute_risk sample_parse sample_now later_log = Inr later_out"
  by code_simp

lemma alice_in_sample_out: "alice_row \<in> set (rows sample_out)"
  by (simp add: sample_out_def)

lemma setitem_old: "c \<in> set cs \<Longrightarrow> setitem cs c = cs"
  by (simp add: setitem_def)

lemma setitem_new: "c \<notin> set cs \<Longrightarrow> setitem cs c = cs @ [c]"
  by (simp add: setitem_def)

lemma foldl_setitem:
  "distinct xs \<Longrightarrow> foldl setitem cs xs = cs @ filter (\<lambda>c. c \<notin> set cs) xs"
proof (induction xs arbitrary: cs)
  case Nil
  then show ?case by simp
next
  case (Cons x xs)
  then have IH: "foldl setitem (setitem cs x) xs
      = setitem cs x @ filter (\<lambda>c. c \<notin> set (setitem cs x)) xs"
    by simp
  show ?case
  proof (cases "x \<in> set cs")
    case True
    with IH show ?thesis by (simp add: setitem_old)
  next
    case False
    from Cons.prems have "x \<notin> set xs" by simp
    then have "filter (\<lambda>c. c \<noteq> x \<and> c \<notin> set cs) xs = filter (\<lambda>c. c \<notin> set cs) xs"
      by (intro filter_cong) auto
    with IH False show ?thesis by (simp add: setitem_new)
  qed
qed

lemma distinct_derived: "distinct derived"
  by (simp add: derived_def)

lemma augmented_schema:
  assumes "set required \<subseteq> set cs"
  shows "foldl setitem cs assigned = cs @ filter (\<lambda>c. c \<notin> set cs) derived"
proof -
  from assms have "''Time'' \<in> set cs" by (auto simp: required_def)
  then have "foldl setitem cs assigned = foldl setitem cs derived"
    by (simp add: assigned_def setitem_old)
  then show ?thesis
    by (simp only: foldl_setitem [OF distinct_derived])
qed

section \<open>The score\<close>

lemma indicators_score [simp]: "indicators (score r) = indicators r"
  by (simp add: score_def indicators_def)

lemma risk_score_score [simp]: "risk_score (score r) = sum_list (indicators r)"
  by (simp add: score_def)

lemma indicators_bounds:
  "0 \<le> sum_list (indicators r) \<and> sum_list (indicators r) \<le> 7 \<and> length (indicators r) = 7
     \<and> set (indicators r) \<subseteq> {0, 1}"
  by (auto simp: indicators_def of_bool_def)

lemma sum_indicators:
  "sum_list (indicators r) =
       of_bool (zero_resource r) + of_bool (lastmin_first r) + of_bool (3 \<le> grade_snoop r)
     + of_bool (no_draft r \<and> 4 \<le> status_checks r) + of_bool (5 \<le> hop_binge r)
     + of_bool (\<not> help_count r) + of_bool (2 \<le> geo_jumps r)"
  by (simp add: indicators_def)

lemma signals_of_user:
  assumes "User_full_name e' = User_full_name e"
  shows "indicators (signals a d now df e') = indicators (signals a d now df e)"
  using assms by (simp add: indicators_def signals_def)

lemma busy_run: "compute_risk sample_parse sample_now busy_log = Inr busy_out"
  by code_simp

lemma carol_in_busy_out:
  "carol_row ''Course viewed'' ''10.0.1.9'' ''10.0.1'' \<in> set (rows busy_out)"
  by (simp add: busy_out_def numeral_eq_Suc)

text \<open>
  C1. In every row of the table that \<^verbatim>\<open>compute_risk\<close> returns, \<^verbatim>\<open>risk_score\<close> is an integer
  between 0 and 7, the sum of the seven terms of lines 109 to 115, each 0 or 1: the row's
  \<^verbatim>\<open>zero_resource\<close>; its \<^verbatim>\<open>lastmin_first\<close>; \<^verbatim>\<open>grade_snoop\<close> at least 3; \<^verbatim>\<open>no_draft\<close> with
  \<^verbatim>\<open>status_checks\<close> at least 4; \<^verbatim>\<open>hop_binge\<close> at least 5; not \<^verbatim>\<open>help_count\<close>; \<^verbatim>\<open>geo_jumps\<close> at
  least 2. The score belongs to the row's user: every row with the same user name has the
  same score.
\<close>

theorem risk_score_range:
  assumes "compute_risk parse now log = Inr out" and "r \<in> set (rows out)"
  shows "risk_score r =
         of_bool (zero_resource r) + of_bool (lastmin_first r) + of_bool (3 \<le> grade_snoop r)
       + of_bool (no_draft r \<and> 4 \<le> status_checks r) + of_bool (5 \<le> hop_binge r)
       + of_bool (\<not> help_count r) + of_bool (2 \<le> geo_jumps r)
     \<and> 0 \<le> risk_score r \<and> risk_score r \<le> 7
     \<and> (\<forall>r' \<in> set (rows out). User_full_name r' = User_full_name r
           \<longrightarrow> risk_score r' = risk_score r)"
proof -
  let ?df = "map (parse_time parse) (rows log)"
  let ?row = "\<lambda>e. score (signals 2889 the_deadline now ?df e)"
  from assms(1) have rws: "rows out = map ?row ?df"
    unfolding compute_risk_def by (rule risk_engine_InrD)
  with assms(2) obtain e where r: "r = ?row e"
    by auto
  have sum: "risk_score r = sum_list (indicators r)"
    unfolding r by simp
  have "risk_score r' = risk_score r"
    if "r' \<in> set (rows out)" and u: "User_full_name r' = User_full_name r" for r'
  proof -
    from that(1) rws obtain e' where r': "r' = ?row e'"
      by auto
    from u have eq: "User_full_name e' = User_full_name e"
      unfolding r r' by (simp add: score_def signals_def)
    have "risk_score r' = sum_list (indicators (signals 2889 the_deadline now ?df e'))"
      unfolding r' by simp
    also have "\<dots> = sum_list (indicators (signals 2889 the_deadline now ?df e))"
      by (simp only: signals_of_user [OF eq])
    also have "\<dots> = risk_score r"
      unfolding r by simp
    finally show ?thesis .
  qed
  moreover have "0 \<le> risk_score r \<and> risk_score r \<le> 7"
    unfolding sum using indicators_bounds [of r] by simp
  moreover note sum [unfolded sum_indicators]
  ultimately show ?thesis by blast
qed

theorem risk_score_range_witness:
  "compute_risk sample_parse sample_now busy_log = Inr busy_out
     \<and> carol_row ''Course viewed'' ''10.0.1.9'' ''10.0.1'' \<in> set (rows busy_out)
     \<and> grade_snoop (carol_row ''Course viewed'' ''10.0.1.9'' ''10.0.1'') = 3
     \<and> status_checks (carol_row ''Course viewed'' ''10.0.1.9'' ''10.0.1'') = 4
     \<and> hop_binge (carol_row ''Course viewed'' ''10.0.1.9'' ''10.0.1'') = 5
     \<and> geo_jumps (carol_row ''Course viewed'' ''10.0.1.9'' ''10.0.1'') = 2
     \<and> risk_score (carol_row ''Course viewed'' ''10.0.1.9'' ''10.0.1'') = 1 + 1 + 1 + 1 + 1 + 1 + 1
     \<and> 0 \<le> risk_score (carol_row ''Course viewed'' ''10.0.1.9'' ''10.0.1'')
     \<and> risk_score (carol_row ''Course viewed'' ''10.0.1.9'' ''10.0.1'') \<le> 7"
  using risk_score_range [OF busy_run carol_in_busy_out] busy_run carol_in_busy_out
  by (simp add: carol_row_def)

section \<open>Schema and errors\<close>

text \<open>
  C7. For a log without rows that has the five columns the engine reads, \<^verbatim>\<open>compute_risk\<close>
  raises nothing and returns a table without rows whose columns are those of the log followed
  by the derived columns that the log does not have yet, as for any other log.
\<close>

theorem empty_log:
  assumes "set required \<subseteq> set cs"
  shows "compute_risk parse now \<lparr>columns = cs, rows = []\<rparr> =
     Inr \<lparr>columns = cs @ filter (\<lambda>c. c \<notin> set cs) derived, rows = []\<rparr>"
  using assms
  by (simp add: compute_risk_def risk_engine_Inr [OF raised_empty] augmented_schema)

lemma subset_refl_required: "set required \<subseteq> set required"
  by (rule subset_refl)

theorem empty_log_witness:
  "set required \<subseteq> set required \<and>
   compute_risk sample_parse sample_now \<lparr>columns = required, rows = []\<rparr> =
     Inr \<lparr>columns = [''Time'', ''Event name'', ''Description'', ''User full name'', ''IP address'',
             ''zero_resource'', ''lastmin_first'', ''grade_snoop'', ''status_checks'',
             ''no_draft'', ''minute5'', ''hop_binge'', ''help_count'', ''ip_block'',
             ''geo_jumps'', ''risk_score''],
          rows = []\<rparr>"
proof -
  have "required @ filter (\<lambda>c. c \<notin> set required) derived =
     [''Time'', ''Event name'', ''Description'', ''User full name'', ''IP address'',
             ''zero_resource'', ''lastmin_first'', ''grade_snoop'', ''status_checks'',
             ''no_draft'', ''minute5'', ''hop_binge'', ''help_count'', ''ip_block'',
             ''geo_jumps'', ''risk_score'']"
    by code_simp
  with empty_log [OF subset_refl_required, of sample_parse sample_now]
  show ?thesis by simp
qed







lemma two_columns_run:
  "compute_risk sample_parse sample_now \<lparr>columns = [''Time'', ''User full name''], rows = []\<rparr>
     = Inl (KeyError ''Event name'')"
  by code_simp




lemma event_cells_kept:
  "Time (score (signals a d now df r)) = Time r"
  "Event_name (score (signals a d now df r)) = Event_name r"
  "Description (score (signals a d now df r)) = Description r"
  "User_full_name (score (signals a d now df r)) = User_full_name r"
  "IP_address (score (signals a d now df r)) = IP_address r"
  by (simp_all add: score_def signals_def)

lemma parse_time_cells:
  "Time (parse_time parse e) = to_datetime parse (Time e)"
  "Event_name (parse_time parse e) = Event_name e"
  "Description (parse_time parse e) = Description e"
  "User_full_name (parse_time parse e) = User_full_name e"
  "IP_address (parse_time parse e) = IP_address e"
  by (simp_all add: parse_time_def)

text \<open>
  C6, as the code has it. The table returned has the columns of the log followed by those of
  the eleven derived columns that the log does not have yet, in the order of their
  assignment: the signal columns \<^verbatim>\<open>zero_resource\<close>, \<^verbatim>\<open>lastmin_first\<close>, \<^verbatim>\<open>grade_snoop\<close>,
  \<^verbatim>\<open>status_checks\<close>, \<^verbatim>\<open>no_draft\<close>, \<^verbatim>\<open>hop_binge\<close>, \<^verbatim>\<open>help_count\<close>, \<^verbatim>\<open>geo_jumps\<close>, the working
  columns \<^verbatim>\<open>minute5\<close> and \<^verbatim>\<open>ip_block\<close>, and \<^verbatim>\<open>risk_score\<close>. Its rows are those of the log, with
  \<^verbatim>\<open>Time\<close> parsed and the other cells unchanged.
\<close>

theorem augmented_table:
  assumes "compute_risk parse now log = Inr out"
  shows "columns out = columns log @ filter (\<lambda>c. c \<notin> set (columns log)) derived
     \<and> derived = [''zero_resource'', ''lastmin_first'', ''grade_snoop'', ''status_checks'',
          ''no_draft'', ''minute5'', ''hop_binge'', ''help_count'', ''ip_block'', ''geo_jumps'',
          ''risk_score'']
     \<and> map Time (rows out) = map (\<lambda>e. to_datetime parse (Time e)) (rows log)
     \<and> map Event_name (rows out) = map Event_name (rows log)
     \<and> map Description (rows out) = map Description (rows log)
     \<and> map User_full_name (rows out) = map User_full_name (rows log)
     \<and> map IP_address (rows out) = map IP_address (rows log)"
proof -
  let ?df = "map (parse_time parse) (rows log)"
  from assms have req: "set required \<subseteq> set (columns log)"
    and cols: "columns out = foldl setitem (columns log) assigned"
    and rws: "rows out = map (\<lambda>r. score (signals 2889 the_deadline now ?df r)) ?df"
    unfolding compute_risk_def by (rule risk_engine_InrD)+
  from cols req have "columns out = columns log @ filter (\<lambda>c. c \<notin> set (columns log)) derived"
    by (simp only: augmented_schema)
  moreover have "map Time (rows out) = map (\<lambda>e. to_datetime parse (Time e)) (rows log)"
    by (simp add: rws event_cells_kept parse_time_cells comp_def)
  moreover have "map Event_name (rows out) = map Event_name (rows log)"
    by (simp add: rws event_cells_kept parse_time_cells comp_def)
  moreover have "map Description (rows out) = map Description (rows log)"
    by (simp add: rws event_cells_kept parse_time_cells comp_def)
  moreover have "map User_full_name (rows out) = map User_full_name (rows log)"
    by (simp add: rws event_cells_kept parse_time_cells comp_def)
  moreover have "map IP_address (rows out) = map IP_address (rows log)"
    by (simp add: rws event_cells_kept parse_time_cells comp_def)
  ultimately show ?thesis by (simp only: derived_def simp_thms)
qed

theorem augmented_table_witness:
  "compute_risk sample_parse sample_now sample_log = Inr sample_out
   \<and> columns sample_out = columns sample_log @ filter (\<lambda>c. c \<notin> set (columns sample_log)) derived
   \<and> map Time (rows sample_out) = map (\<lambda>e. to_datetime sample_parse (Time e)) (rows sample_log)
   \<and> map User_full_name (rows sample_out) = map User_full_name (rows sample_log)"
  using augmented_table [OF sample_run] sample_run by simp

text \<open>
  For the sample log the returned table has eleven columns that the log does not have, not
  eight.
\<close>

theorem added_columns_counterexample:
  "compute_risk sample_parse sample_now sample_log = Inr sample_out
   \<and> filter (\<lambda>c. c \<notin> set (columns sample_log)) (columns sample_out) =
       [''zero_resource'', ''lastmin_first'', ''grade_snoop'', ''status_checks'', ''no_draft'',
        ''minute5'', ''hop_binge'', ''help_count'', ''ip_block'', ''geo_jumps'', ''risk_score'']
   \<and> length (filter (\<lambda>c. c \<notin> set (columns sample_log)) (columns sample_out)) \<noteq> 8"
proof -
  have "filter (\<lambda>c. c \<notin> set (columns sample_log)) (columns sample_out) =
       [''zero_resource'', ''lastmin_first'', ''grade_snoop'', ''status_checks'', ''no_draft'',
        ''minute5'', ''hop_binge'', ''help_count'', ''ip_block'', ''geo_jumps'', ''risk_score'']"
    by code_simp
  with sample_run show ?thesis by simp
qed

section \<open>Grade-book snooping\<close>

lemma grown_run: "compute_risk sample_parse sample_now grown_log = Inr grown_out"
  by code_simp

lemma row_of_out:
  assumes "compute_risk parse now log = Inr out" and "r \<in> set (rows out)"
  obtains e where "e \<in> set (rows log)"
    and "r = score (signals 2889 the_deadline now (map (parse_time parse) (rows log))
                     (parse_time parse e))"
proof -
  let ?df = "map (parse_time parse) (rows log)"
  from assms(1)
  have "rows out = map (\<lambda>r. score (signals 2889 the_deadline now ?df r)) ?df"
    unfolding compute_risk_def by (rule risk_engine_InrD)
  with assms(2) that show thesis by auto
qed

lemma signal_cells:
  "zero_resource (score (signals a d now df e)) = (\<not> isin (User_full_name e) (has_opened a df))"
  "lastmin_first (score (signals a d now df e)) = lastmin d df (User_full_name e)"
  "grade_snoop (score (signals a d now df e)) = map_fillna (snoop_cnt now df) (User_full_name e)"
  "status_checks (score (signals a d now df e)) = map_fillna (status_cnt df) (User_full_name e)"
  "no_draft (score (signals a d now df e)) = True"
  "minute5 (score (signals a d now df e)) = floor_5min (Time e)"
  "hop_binge (score (signals a d now df e)) = map_fillna (binge df) (User_full_name e)"
  "help_count (score (signals a d now df e)) = isin (User_full_name e) (helped df)"
  "ip_block (score (signals a d now df e)) = str_extract (IP_address e)"
  "geo_jumps (score (signals a d now df e)) = map_fillna (geo df) (User_full_name e)"
  by (simp_all add: score_def signals_def)

lemma map_fillna_size:
  "map_fillna (\<lambda>x. map_option length (groupby key df x)) u =
     (if u = None then 0 else length (filter (\<lambda>r. key r = u) df))"
  by (simp add: map_fillna_def groupby_def Let_def)

lemma snoop_count:
  "map_fillna (snoop_cnt now df) u =
     (if u = None then 0 else length (filter (\<lambda>r. User_full_name r = u) (snoop now df)))"
  using map_fillna_size [of User_full_name "snoop now df" u]
  by (simp add: snoop_cnt_def [abs_def])

lemma snoop_parsed:
  "length (filter (\<lambda>r. User_full_name r = Some u) (snoop now (map (parse_time parse) es)))
     = grade_views_since parse now es u"
  by (induction es)
    (auto simp: snoop_def recent_def grade_views_since_def parse_time_cells series_eq_def
       series_ge_def split: option.splits)

lemma indicator_snoop: "indicators r ! 2 = of_bool (3 \<le> grade_snoop r)"
  by (simp add: indicators_def)

text \<open>
  C2, as the code has it. For every row of the returned table whose user is \<open>u\<close>,
  \<^verbatim>\<open>grade_snoop\<close> is the number of the rows of \<open>u\<close> in the log whose event is
  \<^verbatim>\<open>Grade user report viewed\<close> and whose timestamp is no earlier than 48 hours before \<open>now\<close>
  (line 80 has no upper bound, so rows stamped after \<open>now\<close> count as well). The third term of
  the score is 1 exactly when this number is at least 3.
\<close>

theorem grade_snoop_counts:
  assumes "compute_risk parse now log = Inr out" and "r \<in> set (rows out)"
    and "User_full_name r = Some u"
  shows "grade_snoop r = grade_views_since parse now (rows log) u
     \<and> indicators r ! 2 = of_bool (3 \<le> grade_views_since parse now (rows log) u)
     \<and> risk_score r = sum_list (indicators r)"
proof -
  from assms(1,2) obtain e where
    r: "r = score (signals 2889 the_deadline now (map (parse_time parse) (rows log))
                    (parse_time parse e))"
    by (rule row_of_out)
  with assms(3) have u: "User_full_name (parse_time parse e) = Some u"
    by (simp add: event_cells_kept)
  have "grade_snoop r = grade_views_since parse now (rows log) u"
    unfolding r signal_cells u snoop_count by (simp add: snoop_parsed)
  moreover have "risk_score r = sum_list (indicators r)"
    unfolding r by simp
  ultimately show ?thesis by (simp add: indicator_snoop)
qed

lemma later_in_out: "later_row \<in> set (rows later_out)"
  by (simp add: later_out_def)

lemma later_user: "User_full_name later_row = Some ''alice''"
  by (simp add: later_row_def)

theorem grade_snoop_counts_witness:
  "compute_risk sample_parse sample_now later_log = Inr later_out
   \<and> later_row \<in> set (rows later_out) \<and> User_full_name later_row = Some ''alice''
   \<and> grade_snoop later_row = grade_views_since sample_parse sample_now (rows later_log) ''alice''
   \<and> grade_snoop later_row = 1"
  using grade_snoop_counts [OF later_run later_in_out later_user] later_run later_in_out later_user
  by (simp add: later_row_def)

text \<open>
  A row stamped after \<open>now\<close> is counted in \<^verbatim>\<open>grade_snoop\<close>, although it does not lie within
  the 48 hours before \<open>now\<close>.
\<close>

theorem grade_snoop_window_counterexample:
  "compute_risk sample_parse sample_now later_log = Inr later_out
   \<and> rows later_out = [later_row] \<and> User_full_name later_row = Some ''alice''
   \<and> grade_snoop later_row = 1
   \<and> grade_views_within sample_parse sample_now (rows later_log) ''alice'' = 0
   \<and> grade_snoop later_row
       \<noteq> grade_views_within sample_parse sample_now (rows later_log) ''alice''"
proof -
  have "grade_views_within sample_parse sample_now (rows later_log) ''alice'' = 0"
    by code_simp
  with later_run show ?thesis
    by (simp add: later_out_def later_row_def)
qed





section \<open>Last-minute first access\<close>

lemma series_min_Min: "ts \<noteq> [] \<Longrightarrow> series_min ts = Some (Min (set ts))"
proof (cases ts)
  case Nil
  moreover assume "ts \<noteq> []"
  ultimately show ?thesis by simp
next
  case (Cons t ts')
  have "fold min ts' t = Min (set (t # ts'))"
    by (rule Min.set_eq_fold [symmetric])
  with Cons show ?thesis by (simp only: series_min.simps)
qed

lemma dropna_Cons:
  "dropna (x # xs) = (case x of None \<Rightarrow> dropna xs | Some y \<Rightarrow> y # dropna xs)"
  by (cases x) simp_all

lemma valid_times_parsed:
  "dropna (map Time (filter (\<lambda>r. User_full_name r = Some u) (map (parse_time parse) es)))
     = valid_times parse es u"
  by (induction es)
    (simp_all add: valid_times_def parse_time_cells dropna_Cons split: option.split)

lemma lastmin_cell:
  assumes "compute_risk parse now log = Inr out" and "r \<in> set (rows out)"
    and "User_full_name r = Some u"
  shows "lastmin_first r =
     within_24h the_deadline (series_min (valid_times parse (rows log) u))"
proof -
  let ?df = "map (parse_time parse) (rows log)"
  from assms(1,2) obtain e where e: "e \<in> set (rows log)"
    and r: "r = score (signals 2889 the_deadline now ?df (parse_time parse e))"
    by (rule row_of_out)
  from assms(3) have u: "User_full_name (parse_time parse e) = Some u"
    by (simp add: r event_cells_kept)
  from e have "parse_time parse e \<in> set ?df" by simp
  with u have "filter (\<lambda>r. User_full_name r = Some u) ?df \<noteq> []"
    by (auto simp: filter_empty_conv)
  then have "first_access ?df (Some u) =
      Some (series_min (dropna (map Time (filter (\<lambda>r. User_full_name r = Some u) ?df))))"
    by (simp add: first_access_def groupby_def Let_def)
  then have "lastmin the_deadline ?df (Some u) =
      within_24h the_deadline (series_min (valid_times parse (rows log) u))"
    by (simp add: lastmin_def series_get_def valid_times_parsed)
  then show ?thesis
    by (simp add: r signal_cells u)
qed

text \<open>
  C3. For every row of the returned table whose user is \<open>u\<close>: when some timestamp of \<open>u\<close>
  parses, \<^verbatim>\<open>lastmin_first\<close> holds exactly when the deadline minus the earliest of these
  timestamps is at most 24 hours; when none parses, \<^verbatim>\<open>lastmin_first\<close> is false.
\<close>

theorem lastmin_first_iff:
  assumes "compute_risk parse now log = Inr out" and "r \<in> set (rows out)"
    and "User_full_name r = Some u"
  shows "(valid_times parse (rows log) u \<noteq> [] \<longrightarrow>
            (lastmin_first r \<longleftrightarrow>
               the_deadline - Min (set (valid_times parse (rows log) u)) \<le> 24 * hour))
     \<and> (valid_times parse (rows log) u = [] \<longrightarrow> \<not> lastmin_first r)"
  unfolding lastmin_cell [OF assms]
  by (simp add: series_min_Min within_24h_def)

lemma bob_in_out: "bob_row \<in> set (rows sample_out)"
  by (simp add: sample_out_def)

lemma bob_user: "User_full_name bob_row = Some ''bob''"
  by (simp add: bob_row_def)

lemma alice_user: "User_full_name alice_row = Some ''alice''"
  by (simp add: alice_row_def)

lemma sample_times:
  "valid_times sample_parse (rows sample_log) ''alice'' = [1765965600000000000]"
  "valid_times sample_parse (rows sample_log) ''bob'' = []"
  by code_simp+

theorem lastmin_first_iff_witness:
  "compute_risk sample_parse sample_now sample_log = Inr sample_out
   \<and> alice_row \<in> set (rows sample_out) \<and> User_full_name alice_row = Some ''alice''
   \<and> valid_times sample_parse (rows sample_log) ''alice'' \<noteq> []
   \<and> (lastmin_first alice_row \<longleftrightarrow>
        the_deadline - Min (set (valid_times sample_parse (rows sample_log) ''alice''))
          \<le> 24 * hour)
   \<and> lastmin_first alice_row
   \<and> bob_row \<in> set (rows sample_out) \<and> User_full_name bob_row = Some ''bob''
   \<and> valid_times sample_parse (rows sample_log) ''bob'' = []
   \<and> \<not> lastmin_first bob_row"
  using lastmin_first_iff [OF sample_run alice_in_sample_out alice_user]
    lastmin_first_iff [OF sample_run bob_in_out bob_user]
    sample_run alice_in_sample_out alice_user bob_in_out bob_user
  by (simp add: sample_times) (simp add: alice_row_def)

section \<open>Growing a log\<close>

lemma triple_run: "compute_risk_inferred sample_reading sample_now triple_log = Inr triple_out"
  by code_simp

lemma quad_run: "compute_risk_inferred sample_reading sample_now quad_log = Inr quad_out"
  by code_simp











section \<open>Per-user isolation\<close>

lemma rows_of_idem [simp]: "rows_of u (rows_of u es) = rows_of u es"
  by (simp add: rows_of_def)


lemma set_unique [simp]: "set (unique xs) = set xs"
  by (simp add: unique_def)
























lemma mixed_run: "compute_risk_inferred sample_reading sample_now mixed_log = Inr mixed_out"
  by code_simp






section \<open>Determinism and the course identifier\<close>

lemma reference_time_matters:
  "compute_risk sample_parse sample_now later_log
     \<noteq> compute_risk sample_parse (sample_now + 72 * hour) later_log"
  by code_simp




text \<open>
  C10. The course identifier of line 62 is assigned and never read: the table returned is
  the same for every value of it, and \<^verbatim>\<open>compute_risk\<close>, which fixes it to 83, returns what the
  engine returns for any other value.
\<close>

theorem course_id_unused:
  "risk_engine parse course_id assign_cmid deadline now log
     = risk_engine parse course_id' assign_cmid deadline now log
   \<and> compute_risk parse now log = risk_engine parse course_id 2889 the_deadline now log"
  by (simp add: risk_engine_def compute_risk_def)

end
